theory Spec2Isabelle
  imports Main "HOL-Library.Word"
begin

unbundle bit_operations_syntax

section \<open>The MIDI receive path of PianoLED (src/MIDI/MIDI.h, src/MIDI/MIDI.hpp)\<close>

text \<open>
  The development embeds \<^verbatim>\<open>MidiInterface\<close>: the byte parser \<^verbatim>\<open>parse\<close>, the
  channel filter, the callback dispatcher, the thru filter and \<^verbatim>\<open>read\<close>.
  A byte is an 8-bit word. \<^verbatim>\<open>MidiType\<close>, \<^verbatim>\<open>Channel\<close> and \<^verbatim>\<open>StatusByte\<close> are bytes in
  the source as well: the code casts between them (\<^verbatim>\<open>MidiType(inStatus & 0xf0)\<close>,
  \<^verbatim>\<open>(MidiType)extracted\<close>) and compares them with \<^verbatim>\<open>>=\<close>.
\<close>

type_synonym byte = "8 word"
type_synonym MidiType = byte
type_synonym Channel = byte
type_synonym StatusByte = byte

subsection \<open>Constants of midi\_Defs.h\<close>

text \<open>
  Modelled from the spec: the enumeration \<^verbatim>\<open>MidiType\<close> of midi\_Defs.h is not under
  src/. The values are those of the wire-format table of the spec (section 6): channel
  messages 0x80 .. 0xE0 in the order Off, On, PolyAT, CC, PC, ChanAT, PB, the system
  messages 0xF0 .. 0xFF. \<^verbatim>\<open>Tick\<close> is the one status byte the table leaves out, 0xF9, and
  \<^verbatim>\<open>InvalidType\<close> is 0, the value below every status byte.
\<close>

definition InvalidType :: MidiType where "InvalidType = 0x00"
definition NoteOff :: MidiType where "NoteOff = 0x80"
definition NoteOn :: MidiType where "NoteOn = 0x90"
definition AfterTouchPoly :: MidiType where "AfterTouchPoly = 0xA0"
definition ControlChange :: MidiType where "ControlChange = 0xB0"
definition ProgramChange :: MidiType where "ProgramChange = 0xC0"
definition AfterTouchChannel :: MidiType where "AfterTouchChannel = 0xD0"
definition PitchBend :: MidiType where "PitchBend = 0xE0"
definition SystemExclusive :: MidiType where "SystemExclusive = 0xF0"
definition SystemExclusiveStart :: MidiType where "SystemExclusiveStart = 0xF0"
definition TimeCodeQuarterFrame :: MidiType where "TimeCodeQuarterFrame = 0xF1"
definition SongPosition :: MidiType where "SongPosition = 0xF2"
definition SongSelect :: MidiType where "SongSelect = 0xF3"
definition Undefined_F4 :: MidiType where "Undefined_F4 = 0xF4"
definition Undefined_F5 :: MidiType where "Undefined_F5 = 0xF5"
definition TuneRequest :: MidiType where "TuneRequest = 0xF6"
definition SystemExclusiveEnd :: MidiType where "SystemExclusiveEnd = 0xF7"
definition Clock :: MidiType where "Clock = 0xF8"
definition Tick :: MidiType where "Tick = 0xF9"
definition Start :: MidiType where "Start = 0xFA"
definition Continue :: MidiType where "Continue = 0xFB"
definition Stop :: MidiType where "Stop = 0xFC"
definition Undefined_FD :: MidiType where "Undefined_FD = 0xFD"
definition ActiveSensing :: MidiType where "ActiveSensing = 0xFE"
definition SystemReset :: MidiType where "SystemReset = 0xFF"

lemmas MidiType_defs =
  InvalidType_def NoteOff_def NoteOn_def AfterTouchPoly_def ControlChange_def
  ProgramChange_def AfterTouchChannel_def PitchBend_def SystemExclusive_def
  SystemExclusiveStart_def TimeCodeQuarterFrame_def SongPosition_def SongSelect_def
  Undefined_F4_def Undefined_F5_def TuneRequest_def SystemExclusiveEnd_def Clock_def
  Tick_def Start_def Continue_def Stop_def Undefined_FD_def ActiveSensing_def
  SystemReset_def

text \<open>
  Modelled from the spec: \<^verbatim>\<open>MIDI_CHANNEL_OMNI\<close> and \<^verbatim>\<open>MIDI_CHANNEL_OFF\<close> (midi\_Defs.h)
  are not under src/. The spec has the channels 1 .. 16 beside "omni" and "off";
  \<^verbatim>\<open>read\<close> disables the input for every channel \<^verbatim>\<open>>= MIDI_CHANNEL_OFF\<close>, so "off" is
  the first value above 16 and "omni" the one value below 1.
\<close>

definition MIDI_CHANNEL_OMNI :: Channel where "MIDI_CHANNEL_OMNI = 0"
definition MIDI_CHANNEL_OFF :: Channel where "MIDI_CHANNEL_OFF = 17"

text \<open>
  Modelled from the spec: the positions of the error bits (midi\_Defs.h) are not under
  src/. The spec has them as distinct sticky bits of one accumulator; they are numbered
  in the order of its taxonomy (section 7).
\<close>

definition ErrorParse :: nat where "ErrorParse = 0"
definition ErrorActiveSensingTimeout :: nat where "ErrorActiveSensingTimeout = 1"

text \<open>\<^verbatim>\<open>Thru::Mode\<close>; \<^verbatim>\<open>Thru::Off\<close> is \<open>Thru_Off\<close> and so on.\<close>

datatype Thru_Mode = Thru_Off | Thru_Full | Thru_SameChannel | Thru_DifferentChannel

text \<open>
  \<^verbatim>\<open>unsigned\<close> is 32 bits wide on the target of the sketch. The counters
  \<^verbatim>\<open>mPendingMessageIndex\<close> and \<^verbatim>\<open>mPendingMessageExpectedLength\<close> are natural numbers
  here; the one place where the source's arithmetic can wrap is
  \<^verbatim>\<open>mPendingMessageExpectedLength - 1\<close> (and \<^verbatim>\<open>Settings::SysExMaxSize - 1\<close>) at 0, written
  out in \<open>usub1\<close>. An increment of the index follows a store at that index that was
  in range, so it stays below the size of the array.
\<close>

definition UINT_MAX :: nat where "UINT_MAX = 2 ^ 32 - 1"

definition usub1 :: "nat \<Rightarrow> nat" where
  "usub1 n = (if n = 0 then UINT_MAX else n - 1)"

subsection \<open>Settings, message, transport, interface state\<close>

text \<open>
  The template parameter \<^verbatim>\<open>Settings\<close>. \<^verbatim>\<open>DefaultSettings\<close> (midi\_Settings.h) is not
  under src/, so its members are parameters of the model; the sketch sets
  \<^verbatim>\<open>SysExMaxSize = 2\<close>. \<open>ActiveSensingTimeout\<close> is the window of the watchdog, a
  constant of midi\_Defs.h.
\<close>

record settings =
  Use1ByteParsing :: bool
  SysExMaxSize :: nat
  HandleNullVelocityNoteOnAsNoteOff :: bool
  UseSenderActiveSensing :: bool
  UseReceiverActiveSensing :: bool
  SenderActiveSensingPeriodicity :: "32 word"
  ActiveSensingTimeout :: "32 word"

text \<open>
  \<^verbatim>\<open>Message<Settings::SysExMaxSize>\<close>, with the fields \<^verbatim>\<open>parse\<close> and \<^verbatim>\<open>begin\<close> assign.
  \<open>m_sysexArray\<close> is the array \<^verbatim>\<open>sysexArray\<close>: its length is the physical size of
  the buffer, \<open>m_length\<close> is the logical length \<^verbatim>\<open>length\<close>.
\<close>

record Message =
  m_type :: MidiType
  m_channel :: Channel
  m_data1 :: byte
  m_data2 :: byte
  m_sysexArray :: "byte list"
  m_valid :: bool
  m_length :: nat

text \<open>
  The transport (\<^verbatim>\<open>SerialMIDI\<close> over a serial port): the bytes waiting to be read and
  the record of the calls made to it.
\<close>

datatype tcall = T_begin | T_available | T_read

record transport =
  rxbuf :: "byte list"
  calls :: "tcall list"

text \<open>The handler slots of \<^verbatim>\<open>MidiInterface\<close>; a slot is registered or null.\<close>

datatype callback =
  MessageCallback | ErrorCallback
  | NoteOffCallback | NoteOnCallback | AfterTouchPolyCallback | ControlChangeCallback
  | ProgramChangeCallback | AfterTouchChannelCallback | PitchBendCallback
  | SystemExclusiveCallback | TimeCodeQuarterFrameCallback | SongPositionCallback
  | SongSelectCallback | TuneRequestCallback | ClockCallback | StartCallback
  | TickCallback | ContinueCallback | StopCallback | ActiveSensingCallback
  | SystemResetCallback

text \<open>
  What the interface does to the outside, in order. \<open>Invoke cb m\<close>: the handler in
  slot \<open>cb\<close> is called while \<^verbatim>\<open>mMessage\<close> is \<open>m\<close> (its arguments are fields of
  \<open>m\<close>). \<open>InvokeError e\<close>: \<^verbatim>\<open>mErrorCallback(mLastError)\<close>. The other events are the
  calls into the send path (\<^verbatim>\<open>send\<close>, \<^verbatim>\<open>sendRealTime\<close>, \<^verbatim>\<open>sendSysEx\<close>, ...), which is not
  under src/: the call and its arguments are recorded, not the bytes written.
  \<open>SendSysEx m\<close> is \<^verbatim>\<open>sendSysEx(getSysExArrayLength(), getSysExArray(), true)\<close> while
  \<^verbatim>\<open>mMessage\<close> is \<open>m\<close>.
\<close>

datatype event =
  Invoke callback Message
  | InvokeError byte
  | Send MidiType byte byte Channel
  | SendRealTime MidiType
  | SendSysEx Message
  | SendSongSelect byte
  | SendSongPosition nat
  | SendTimeCodeQuarterFrame byte byte
  | SendActiveSensing

text \<open>
  The members of \<^verbatim>\<open>MidiInterface\<close>. \<^verbatim>\<open>byte mPendingMessage[3]\<close> is a triple.
\<close>

record midi =
  mInputChannel :: Channel
  mRunningStatus_RX :: StatusByte
  mRunningStatus_TX :: StatusByte
  mPendingMessage :: "byte \<times> byte \<times> byte"
  mPendingMessageExpectedLength :: nat
  mPendingMessageIndex :: nat
  mCurrentRpnNumber :: nat
  mCurrentNrpnNumber :: nat
  mThruActivated :: bool
  mThruFilterMode :: Thru_Mode
  mMessage :: Message
  mLastMessageSentTime :: "32 word"
  mLastMessageReceivedTime :: "32 word"
  mSenderActiveSensingPeriodicity :: "32 word"
  mReceiverActiveSensingActivated :: bool
  mLastError :: byte
  handlers :: "callback \<Rightarrow> bool"
  events :: "event list"

text \<open>
  An access outside an array is undefined behaviour in the source; the model stops with
  \<open>OutOfBounds\<close>.
\<close>

datatype fault = OutOfBounds

fun pm_get :: "byte \<times> byte \<times> byte \<Rightarrow> nat \<Rightarrow> byte" where
  "pm_get (a, b, c) i = (if i = 0 then a else if i = 1 then b else c)"

fun pm_set :: "nat \<Rightarrow> byte \<Rightarrow> byte \<times> byte \<times> byte \<Rightarrow> byte \<times> byte \<times> byte" where
  "pm_set i v (a, b, c) = (if i = 0 then (v, b, c) else if i = 1 then (a, v, c) else (a, b, v))"

text \<open>\<^verbatim>\<open>DefaultPlatform::now\<close> (MIDI.h) returns 0.\<close>

definition now :: "32 word" where "now = 0"

subsection \<open>Static helpers\<close>

definition getTypeFromStatusByte :: "byte \<Rightarrow> MidiType" where
  "getTypeFromStatusByte inStatus =
     (if inStatus < 0x80 \<or> inStatus = Undefined_F4 \<or> inStatus = Undefined_F5
         \<or> inStatus = Undefined_FD
      then InvalidType
      else if inStatus < 0xf0 then inStatus AND 0xf0
      else inStatus)"

definition getChannelFromStatusByte :: "byte \<Rightarrow> Channel" where
  "getChannelFromStatusByte inStatus = (inStatus AND 0x0f) + 1"

definition isChannelMessage :: "MidiType \<Rightarrow> bool" where
  "isChannelMessage inType =
     (inType = NoteOff \<or> inType = NoteOn \<or> inType = ControlChange
      \<or> inType = AfterTouchPoly \<or> inType = AfterTouchChannel
      \<or> inType = PitchBend \<or> inType = ProgramChange)"

subsection \<open>Callbacks\<close>

definition invoke :: "callback \<Rightarrow> midi \<Rightarrow> midi" where
  "invoke cb st =
     (if handlers st cb then st\<lparr>events := events st @ [Invoke cb (mMessage st)]\<rparr> else st)"

text \<open>\<^verbatim>\<open>if (mErrorCallback) mErrorCallback(mLastError);\<close>\<close>

definition errorCallback :: "midi \<Rightarrow> midi" where
  "errorCallback st =
     (if handlers st ErrorCallback
      then st\<lparr>events := events st @ [InvokeError (mLastError st)]\<rparr> else st)"

definition launchCallback :: "midi \<Rightarrow> midi" where
  "launchCallback st0 =
     (let st = invoke MessageCallback st0; t = m_type (mMessage st) in
      if t = NoteOff then invoke NoteOffCallback st
      else if t = NoteOn then invoke NoteOnCallback st
      else if t = Clock then invoke ClockCallback st
      else if t = Start then invoke StartCallback st
      else if t = Tick then invoke TickCallback st
      else if t = Continue then invoke ContinueCallback st
      else if t = Stop then invoke StopCallback st
      else if t = ActiveSensing then invoke ActiveSensingCallback st
      else if t = ControlChange then invoke ControlChangeCallback st
      else if t = PitchBend then invoke PitchBendCallback st
      else if t = AfterTouchPoly then invoke AfterTouchPolyCallback st
      else if t = AfterTouchChannel then invoke AfterTouchChannelCallback st
      else if t = ProgramChange then invoke ProgramChangeCallback st
      else if t = SystemExclusive then invoke SystemExclusiveCallback st
      else if t = TimeCodeQuarterFrame then invoke TimeCodeQuarterFrameCallback st
      else if t = SongPosition then invoke SongPositionCallback st
      else if t = SongSelect then invoke SongSelectCallback st
      else if t = TuneRequest then invoke TuneRequestCallback st
      else if t = SystemReset then invoke SystemResetCallback st
      else st)"

subsection \<open>The parser\<close>

definition resetInput :: "midi \<Rightarrow> midi" where
  "resetInput st =
     st\<lparr>mPendingMessageIndex := 0, mPendingMessageExpectedLength := 0,
        mRunningStatus_RX := InvalidType\<rparr>"

text \<open>
  The error exit of \<^verbatim>\<open>parse\<close>: set the ErrorParse bit, call the error handler,
  \<^verbatim>\<open>resetInput\<close>.
\<close>

definition parseError :: "midi \<Rightarrow> midi" where
  "parseError st =
     resetInput (errorCallback (st\<lparr>mLastError := mLastError st OR push_bit ErrorParse 1\<rparr>))"

text \<open>
  How one pass through the body of \<^verbatim>\<open>parse\<close> ends: \<open>Return b\<close> is \<^verbatim>\<open>return b\<close>,
  \<open>Again\<close> is \<^verbatim>\<open>return (Settings::Use1ByteParsing) ? false : parse()\<close>.
\<close>

datatype outcome = Return bool | Again

text \<open>
  The branch \<^verbatim>\<open>mPendingMessageIndex == 0\<close> after the \<^verbatim>\<open>switch\<close> on the pending type
  (MIDI.hpp 295-316).
\<close>

definition parse_start_check :: "MidiType \<Rightarrow> midi \<Rightarrow> fault + (outcome \<times> midi)" where
  "parse_start_check pendingType st =
     (if mPendingMessageIndex st \<ge> usub1 (mPendingMessageExpectedLength st)
      then Inr (Return True,
        st\<lparr>mMessage := (mMessage st)\<lparr>
              m_type := pendingType,
              m_channel := getChannelFromStatusByte (pm_get (mPendingMessage st) 0),
              m_data1 := pm_get (mPendingMessage st) 1,
              m_data2 := 0,
              m_length := 1,
              m_valid := True\<rparr>,
            mPendingMessageIndex := 0,
            mPendingMessageExpectedLength := 0\<rparr>)
      else Inr (Again, st\<lparr>mPendingMessageIndex := mPendingMessageIndex st + 1\<rparr>))"

text \<open>The branch \<^verbatim>\<open>mPendingMessageIndex == 0\<close> (MIDI.hpp 205-317).\<close>

definition parse_start :: "settings \<Rightarrow> byte \<Rightarrow> midi \<Rightarrow> fault + (outcome \<times> midi)" where
  "parse_start cfg extracted st0 =
     (let st1 = st0\<lparr>mPendingMessage := pm_set 0 extracted (mPendingMessage st0)\<rparr>;
          st = (if isChannelMessage (getTypeFromStatusByte (mRunningStatus_RX st1))
                   \<and> extracted < 0x80
                then st1\<lparr>mPendingMessage :=
                           pm_set 1 extracted
                             (pm_set 0 (mRunningStatus_RX st1) (mPendingMessage st1)),
                         mPendingMessageIndex := 1\<rparr>
                else st1);
          pendingType = getTypeFromStatusByte (pm_get (mPendingMessage st) 0)
      in
      if pendingType \<in> set [Start, Continue, Stop, Clock, Tick, ActiveSensing,
                             SystemReset, TuneRequest]
      then Inr (Return True,
        st\<lparr>mMessage := (mMessage st)\<lparr>
              m_type := pendingType, m_channel := 0, m_data1 := 0, m_data2 := 0,
              m_valid := True\<rparr>,
            mPendingMessageIndex := 0,
            mPendingMessageExpectedLength := 0\<rparr>)
      else if pendingType \<in> set [ProgramChange, AfterTouchChannel, TimeCodeQuarterFrame,
                                  SongSelect]
      then parse_start_check pendingType (st\<lparr>mPendingMessageExpectedLength := 2\<rparr>)
      else if pendingType \<in> set [NoteOn, NoteOff, ControlChange, PitchBend,
                                  AfterTouchPoly, SongPosition]
      then parse_start_check pendingType (st\<lparr>mPendingMessageExpectedLength := 3\<rparr>)
      else if pendingType \<in> set [SystemExclusiveStart, SystemExclusiveEnd]
      then (if m_sysexArray (mMessage st) = [] then Inl OutOfBounds
            else parse_start_check pendingType
              (st\<lparr>mPendingMessageExpectedLength := SysExMaxSize cfg,
                  mRunningStatus_RX := InvalidType,
                  mMessage := (mMessage st)\<lparr>
                    m_sysexArray := (m_sysexArray (mMessage st))[0 := pendingType]\<rparr>\<rparr>))
      else Inr (Return False, parseError st))"

text \<open>
  The branch \<^verbatim>\<open>mPendingMessageIndex > 0\<close> from "Add extracted data byte to pending
  message" on (MIDI.hpp 387-470): the byte is stored, and the message is complete, or
  the sysex buffer is full, or the index moves on.
\<close>

definition parse_store :: "settings \<Rightarrow> byte \<Rightarrow> midi \<Rightarrow> fault + (outcome \<times> midi)" where
  "parse_store cfg extracted st0 =
     (let sysex = (pm_get (mPendingMessage st0) 0 = SystemExclusiveStart
                   \<or> pm_get (mPendingMessage st0) 0 = SystemExclusiveEnd);
          i = mPendingMessageIndex st0
      in
      if (if sysex then i \<ge> length (m_sysexArray (mMessage st0)) else i \<ge> 3)
      then Inl OutOfBounds
      else
        let st = (if sysex
                  then st0\<lparr>mMessage := (mMessage st0)\<lparr>
                             m_sysexArray := (m_sysexArray (mMessage st0))[i := extracted]\<rparr>\<rparr>
                  else st0\<lparr>mPendingMessage := pm_set i extracted (mPendingMessage st0)\<rparr>)
        in
        if i \<ge> usub1 (mPendingMessageExpectedLength st)
        then
          if sysex
          then
            let arr = m_sysexArray (mMessage st); k = usub1 (SysExMaxSize cfg) in
            if k \<ge> length arr \<or> length arr < 2 then Inl OutOfBounds
            else
              let lastByte = arr ! k;
                  st2 = launchCallback
                    (st\<lparr>mMessage := (mMessage st)\<lparr>
                          m_sysexArray := arr[k := SystemExclusiveStart],
                          m_type := SystemExclusive,
                          m_data1 := of_nat (SysExMaxSize cfg mod 256),
                          m_data2 := of_nat (SysExMaxSize cfg div 256),
                          m_channel := 0,
                          m_length := SysExMaxSize cfg,
                          m_valid := True\<rparr>\<rparr>)
              in Inr (Return False,
                   st2\<lparr>mMessage := (mMessage st2)\<lparr>
                         m_sysexArray :=
                           (m_sysexArray (mMessage st2))[0 := SystemExclusiveEnd,
                                                         1 := lastByte]\<rparr>,
                       mPendingMessageIndex := 2\<rparr>)
          else
            let t = getTypeFromStatusByte (pm_get (mPendingMessage st) 0) in
            Inr (Return True,
              st\<lparr>mMessage := (mMessage st)\<lparr>
                    m_type := t,
                    m_channel := (if isChannelMessage t
                                  then getChannelFromStatusByte (pm_get (mPendingMessage st) 0)
                                  else 0),
                    m_data1 := pm_get (mPendingMessage st) 1,
                    m_data2 := (if mPendingMessageExpectedLength st = 3
                                then pm_get (mPendingMessage st) 2 else 0),
                    m_valid := True\<rparr>,
                  mPendingMessageIndex := 0,
                  mPendingMessageExpectedLength := 0,
                  mRunningStatus_RX :=
                    (if t \<in> set [NoteOff, NoteOn, AfterTouchPoly, ControlChange,
                                   ProgramChange, AfterTouchChannel, PitchBend]
                     then pm_get (mPendingMessage st) 0 else InvalidType)\<rparr>)
        else Inr (Again, st\<lparr>mPendingMessageIndex := i + 1\<rparr>))"

text \<open>
  The branch \<^verbatim>\<open>mPendingMessageIndex > 0\<close> (MIDI.hpp 318-471). The \<^verbatim>\<open>switch\<close> on a status
  byte has the cases of the seven real-time bytes and of 0xF0/0xF7; its \<^verbatim>\<open>default\<close>
  is \<^verbatim>\<open>break\<close>, which goes on to store the byte.
\<close>

definition parse_pending :: "settings \<Rightarrow> byte \<Rightarrow> midi \<Rightarrow> fault + (outcome \<times> midi)" where
  "parse_pending cfg extracted st =
     (if extracted \<ge> 0x80
         \<and> extracted \<in> set [Clock, Start, Tick, Continue, Stop, ActiveSensing, SystemReset]
      then Inr (Return True,
        st\<lparr>mMessage := (mMessage st)\<lparr>
              m_type := extracted, m_data1 := 0, m_data2 := 0, m_channel := 0,
              m_length := 1, m_valid := True\<rparr>\<rparr>)
      else if extracted \<ge> 0x80
         \<and> extracted \<in> set [SystemExclusiveStart, SystemExclusiveEnd]
      then
        let arr = m_sysexArray (mMessage st); i = mPendingMessageIndex st in
        if arr = [] then Inl OutOfBounds
        else if arr ! 0 = SystemExclusiveStart \<or> arr ! 0 = SystemExclusiveEnd
        then (if i \<ge> length arr then Inl OutOfBounds
              else Inr (Return True,
                resetInput
                  (st\<lparr>mMessage := (mMessage st)\<lparr>
                        m_sysexArray := arr[i := extracted],
                        m_type := SystemExclusive,
                        m_data1 := of_nat ((i + 1) mod 256),
                        m_data2 := of_nat ((i + 1) div 256),
                        m_channel := 0,
                        m_length := i + 1,
                        m_valid := True\<rparr>,
                      mPendingMessageIndex := i + 1\<rparr>)))
        else Inr (Return False, parseError st)
      else parse_store cfg extracted st)"

text \<open>
  The body of \<^verbatim>\<open>parse\<close> after \<^verbatim>\<open>extracted = mTransport.read()\<close> (MIDI.hpp 201-471).
\<close>

definition parse_byte :: "settings \<Rightarrow> byte \<Rightarrow> midi \<Rightarrow> fault + (outcome \<times> midi)" where
  "parse_byte cfg extracted st =
     (if extracted = Undefined_FD then Inr (Again, st)
      else if mPendingMessageIndex st = 0 then parse_start cfg extracted st
      else parse_pending cfg extracted st)"

text \<open>
  \<^verbatim>\<open>parse\<close> (MIDI.hpp 181-472). The recursion of the source is the recursion here; each
  call takes one byte from the transport.
\<close>

function parse :: "settings \<Rightarrow> transport \<Rightarrow> midi \<Rightarrow> fault + (bool \<times> transport \<times> midi)" where
  "parse cfg tr st =
     (let tr1 = tr\<lparr>calls := calls tr @ [T_available]\<rparr> in
      case rxbuf tr of
        [] \<Rightarrow> Inr (False, tr1, st)
      | extracted # rest \<Rightarrow>
          let st1 = st\<lparr>mLastError := mLastError st AND NOT (push_bit ErrorParse 1)\<rparr>;
              tr2 = tr1\<lparr>rxbuf := rest, calls := calls tr1 @ [T_read]\<rparr>
          in (case parse_byte cfg extracted st1 of
                Inl f \<Rightarrow> Inl f
              | Inr (Return b, st2) \<Rightarrow> Inr (b, tr2, st2)
              | Inr (Again, st2) \<Rightarrow>
                  if Use1ByteParsing cfg then Inr (False, tr2, st2)
                  else parse cfg tr2 st2))"
  by pat_completeness auto
termination
  by (relation "measure (\<lambda>(cfg, tr, st). length (rxbuf tr))") auto

declare parse.simps [simp del]

subsection \<open>Channel filter, thru filter, read, begin\<close>

definition handleNullVelocityNoteOnAsNoteOff :: "settings \<Rightarrow> midi \<Rightarrow> midi" where
  "handleNullVelocityNoteOnAsNoteOff cfg st =
     (if HandleNullVelocityNoteOnAsNoteOff cfg
         \<and> m_type (mMessage st) = NoteOn \<and> m_data2 (mMessage st) = 0
      then st\<lparr>mMessage := (mMessage st)\<lparr>m_type := NoteOff\<rparr>\<rparr>
      else st)"

definition inputFilter :: "midi \<Rightarrow> Channel \<Rightarrow> bool" where
  "inputFilter st inChannel =
     (if m_type (mMessage st) \<ge> NoteOff \<and> m_type (mMessage st) \<le> PitchBend
      then (if m_channel (mMessage st) = inChannel \<or> inChannel = MIDI_CHANNEL_OMNI
            then True else False)
      else True)"

definition emit :: "event \<Rightarrow> midi \<Rightarrow> midi" where
  "emit e st = st\<lparr>events := events st @ [e]\<rparr>"

text \<open>
  \<^verbatim>\<open>send(mMessage.type, mMessage.data1, mMessage.data2, mMessage.channel)\<close>
\<close>

definition sendMessage :: "midi \<Rightarrow> midi" where
  "sendMessage st =
     emit (Send (m_type (mMessage st)) (m_data1 (mMessage st)) (m_data2 (mMessage st))
             (m_channel (mMessage st))) st"

definition thruFilter :: "midi \<Rightarrow> Channel \<Rightarrow> midi" where
  "thruFilter st inChannel =
     (if \<not> mThruActivated st \<or> mThruFilterMode st = Thru_Off then st
      else if m_type (mMessage st) \<ge> NoteOff \<and> m_type (mMessage st) \<le> PitchBend
      then
        let filter_condition =
              (m_channel (mMessage st) = inChannel \<or> inChannel = MIDI_CHANNEL_OMNI)
        in (case mThruFilterMode st of
              Thru_Full \<Rightarrow> sendMessage st
            | Thru_SameChannel \<Rightarrow> if filter_condition then sendMessage st else st
            | Thru_DifferentChannel \<Rightarrow> if \<not> filter_condition then sendMessage st else st
            | Thru_Off \<Rightarrow> st)
      else
        let t = m_type (mMessage st) in
        if t \<in> set [Clock, Start, Stop, Continue, ActiveSensing, SystemReset, TuneRequest]
        then emit (SendRealTime t) st
        else if t = SystemExclusive then emit (SendSysEx (mMessage st)) st
        else if t = SongSelect then emit (SendSongSelect (m_data1 (mMessage st))) st
        else if t = SongPosition
        then emit (SendSongPosition
                     (unat (m_data1 (mMessage st)) OR push_bit 7 (unat (m_data2 (mMessage st))))) st
        else if t = TimeCodeQuarterFrame
        then emit (SendTimeCodeQuarterFrame (m_data1 (mMessage st)) (m_data2 (mMessage st))) st
        else st)"

text \<open>
  The first part of \<^verbatim>\<open>read(inChannel)\<close> (MIDI.hpp 113-136): the sender's periodic
  ActiveSensing and the receiver's watchdog.
\<close>

definition activeSensingBefore :: "settings \<Rightarrow> midi \<Rightarrow> midi" where
  "activeSensingBefore cfg st0 =
     (let st1 = (if UseSenderActiveSensing cfg \<and> mSenderActiveSensingPeriodicity st0 > 0
                    \<and> now - mLastMessageSentTime st0 > mSenderActiveSensingPeriodicity st0
                 then (emit SendActiveSensing st0)\<lparr>mLastMessageSentTime := now\<rparr>
                 else st0)
      in if UseReceiverActiveSensing cfg \<and> mReceiverActiveSensingActivated st1
            \<and> mLastMessageReceivedTime st1 + ActiveSensingTimeout cfg < now
         then errorCallback
                (st1\<lparr>mReceiverActiveSensingActivated := False,
                     mLastError := mLastError st1 OR push_bit ErrorActiveSensingTimeout 1\<rparr>)
         else st1)"

text \<open>The part after a successful \<^verbatim>\<open>parse\<close> (MIDI.hpp 144-165).\<close>

definition activeSensingAfter :: "settings \<Rightarrow> midi \<Rightarrow> midi" where
  "activeSensingAfter cfg st0 =
     (let st1 = (if UseReceiverActiveSensing cfg \<and> m_type (mMessage st0) = ActiveSensing
                 then
                   let st = st0\<lparr>mReceiverActiveSensingActivated := True\<rparr> in
                   if mLastError st AND push_bit (ErrorActiveSensingTimeout - 1) 1 \<noteq> 0
                   then errorCallback
                          (st\<lparr>mLastError :=
                                mLastError st AND NOT (push_bit ErrorActiveSensingTimeout 1)\<rparr>)
                   else st
                 else st0)
      in if UseReceiverActiveSensing cfg \<and> mReceiverActiveSensingActivated st1
         then st1\<lparr>mLastMessageReceivedTime := now\<rparr>
         else st1)"

text \<open>\<^verbatim>\<open>read(Channel inChannel)\<close> (MIDI.hpp 110-176).\<close>

definition read_on :: "settings \<Rightarrow> Channel \<Rightarrow> transport \<Rightarrow> midi
    \<Rightarrow> fault + (bool \<times> transport \<times> midi)" where
  "read_on cfg inChannel tr st0 =
     (let st1 = activeSensingBefore cfg st0 in
      if inChannel \<ge> MIDI_CHANNEL_OFF then Inr (False, tr, st1)
      else
        (case parse cfg tr st1 of
           Inl f \<Rightarrow> Inl f
         | Inr (False, tr', st2) \<Rightarrow> Inr (False, tr', st2)
         | Inr (True, tr', st2) \<Rightarrow>
             let st3 = handleNullVelocityNoteOnAsNoteOff cfg (activeSensingAfter cfg st2);
                 channelMatch = inputFilter st3 inChannel;
                 st4 = (if channelMatch then launchCallback st3 else st3)
             in Inr (channelMatch, tr', thruFilter st4 inChannel)))"

text \<open>\<^verbatim>\<open>read()\<close> (MIDI.hpp 102-106).\<close>

definition read :: "settings \<Rightarrow> transport \<Rightarrow> midi \<Rightarrow> fault + (bool \<times> transport \<times> midi)" where
  "read cfg tr st = read_on cfg (mInputChannel st) tr st"

text \<open>
  \<^verbatim>\<open>begin(Channel inChannel)\<close> (MIDI.hpp 57-84); \<^verbatim>\<open>SerialMIDI::thruActivated\<close> is
  \<^verbatim>\<open>true\<close> (MIDI.h 23).
\<close>

definition begin_midi :: "Channel \<Rightarrow> transport \<Rightarrow> midi \<Rightarrow> transport \<times> midi" where
  "begin_midi inChannel tr st =
     (tr\<lparr>calls := calls tr @ [T_begin]\<rparr>,
      st\<lparr>mInputChannel := inChannel,
         mRunningStatus_TX := InvalidType,
         mRunningStatus_RX := InvalidType,
         mPendingMessageIndex := 0,
         mPendingMessageExpectedLength := 0,
         mCurrentRpnNumber := 0xffff,
         mCurrentNrpnNumber := 0xffff,
         mLastMessageSentTime := now,
         mMessage := (mMessage st)\<lparr>
           m_valid := False, m_type := InvalidType, m_channel := 0, m_data1 := 0,
           m_data2 := 0, m_length := 0\<rparr>,
         mThruFilterMode := Thru_Full,
         mThruActivated := True\<rparr>)"

subsection \<open>The constructor, the setters and the sketch's setup\<close>

text \<open>
  The constructor of \<^verbatim>\<open>MidiInterface\<close> (MIDI.hpp 32-38) with the default member
  initialisers of MIDI.h (every handler null). The members it leaves uninitialised
  (\<^verbatim>\<open>mPendingMessage\<close>, the fields of \<^verbatim>\<open>mMessage\<close>) are zero here; the theorems below
  that start from \<open>begin_midi\<close> hold for every state before it.
\<close>

definition MidiInterface_new :: "settings \<Rightarrow> midi" where
  "MidiInterface_new cfg =
     \<lparr>mInputChannel = 0, mRunningStatus_RX = InvalidType, mRunningStatus_TX = InvalidType,
      mPendingMessage = (0, 0, 0), mPendingMessageExpectedLength = 0,
      mPendingMessageIndex = 0, mCurrentRpnNumber = 0xffff, mCurrentNrpnNumber = 0xffff,
      mThruActivated = True, mThruFilterMode = Thru_Full,
      mMessage = \<lparr>m_type = InvalidType, m_channel = 0, m_data1 = 0, m_data2 = 0,
                  m_sysexArray = replicate (SysExMaxSize cfg) 0, m_valid = False,
                  m_length = 0\<rparr>,
      mLastMessageSentTime = 0, mLastMessageReceivedTime = 0,
      mSenderActiveSensingPeriodicity = SenderActiveSensingPeriodicity cfg,
      mReceiverActiveSensingActivated = False, mLastError = 0,
      handlers = (\<lambda>cb. False), events = []\<rparr>"

text \<open>\<^verbatim>\<open>setHandleNoteOn(fptr)\<close> and its siblings (MIDI.h 85-88) with a non-null handler.\<close>

definition setHandle :: "callback \<Rightarrow> midi \<Rightarrow> midi" where
  "setHandle cb st = st\<lparr>handlers := (handlers st)(cb := True)\<rparr>"

text \<open>
  \<^verbatim>\<open>setup()\<close> of the sketch (PianoLED.ino 401-406): \<^verbatim>\<open>MIDI.begin(MIDI_CHANNEL_OMNI)\<close>
  and the four handlers.
\<close>

definition sketch_setup :: "settings \<Rightarrow> transport \<times> midi" where
  "sketch_setup cfg =
     (let (tr, st) = begin_midi MIDI_CHANNEL_OMNI \<lparr>rxbuf = [], calls = []\<rparr>
                       (MidiInterface_new cfg)
      in (tr, setHandle SystemExclusiveCallback (setHandle ControlChangeCallback
                (setHandle NoteOffCallback (setHandle NoteOnCallback st)))))"

text \<open>
  Settings for the examples: \<^verbatim>\<open>Settings::SysExMaxSize\<close> and \<^verbatim>\<open>Use1ByteParsing\<close> are
  the parameters, null-velocity handling is on, active sensing is off.
\<close>

definition example_settings :: "nat \<Rightarrow> bool \<Rightarrow> settings" where
  "example_settings C one =
     \<lparr>Use1ByteParsing = one, SysExMaxSize = C, HandleNullVelocityNoteOnAsNoteOff = True,
      UseSenderActiveSensing = False, UseReceiverActiveSensing = False,
      SenderActiveSensingPeriodicity = 0, ActiveSensingTimeout = 300\<rparr>"

text \<open>Bytes arrive on the serial line.\<close>

definition arrive :: "byte list \<Rightarrow> transport \<Rightarrow> transport" where
  "arrive bs tr = tr\<lparr>rxbuf := rxbuf tr @ bs\<rparr>"

text \<open>
  \<^verbatim>\<open>parse\<close> called \<open>n\<close> times in a row, as \<^verbatim>\<open>read\<close> does once per pass of the
  sketch's \<^verbatim>\<open>loop()\<close>. The result lists, for every call that returned true, the
  transport and the interface as that call left them.
\<close>

fun parse_loop :: "settings \<Rightarrow> nat \<Rightarrow> transport \<Rightarrow> midi
    \<Rightarrow> fault + ((transport \<times> midi) list \<times> transport \<times> midi)" where
  "parse_loop cfg 0 tr st = Inr ([], tr, st)"
| "parse_loop cfg (Suc n) tr st =
     (case parse cfg tr st of
        Inl f \<Rightarrow> Inl f
      | Inr (r, tr1, st1) \<Rightarrow>
          (case parse_loop cfg n tr1 st1 of
             Inl f \<Rightarrow> Inl f
           | Inr (ms, tr2, st2) \<Rightarrow> Inr ((if r then [(tr1, st1)] else []) @ ms, tr2, st2)))"


text \<open>
  The sketch's interface after \<^verbatim>\<open>setup()\<close>, with a buffer of three bytes, parsing one
  byte per call, and an error handler registered as well.
\<close>

definition idle_tr :: transport where
  "idle_tr = fst (sketch_setup (example_settings 3 True))"

definition idle_st :: midi where
  "idle_st = setHandle ErrorCallback (snd (sketch_setup (example_settings 3 True)))"

subsection \<open>Unfolding \<open>parse\<close>\<close>

text \<open>The transport after \<^verbatim>\<open>available()\<close> and \<^verbatim>\<open>read()\<close> took one byte.\<close>

definition advance :: "transport \<Rightarrow> byte list \<Rightarrow> transport" where
  "advance tr rest = tr\<lparr>rxbuf := rest, calls := calls tr @ [T_available, T_read]\<rparr>"

text \<open>\<^verbatim>\<open>mLastError &= ~(1UL << ErrorParse)\<close>\<close>

definition clearErrorParse :: "midi \<Rightarrow> midi" where
  "clearErrorParse st = st\<lparr>mLastError := mLastError st AND NOT (push_bit ErrorParse 1)\<rparr>"

lemma pm_get_pm_set [simp]:
  "pm_get (pm_set i v p) j = (if min i 2 = min j 2 then v else pm_get p j)"
  by (cases p) (auto simp: min_def)

lemma parse_Nil:
  "rxbuf tr = [] \<Longrightarrow>
   parse cfg tr st = Inr (False, tr\<lparr>calls := calls tr @ [T_available]\<rparr>, st)"
  by (subst parse.simps) simp

lemma parse_Cons:
  "rxbuf tr = b # rest \<Longrightarrow>
   parse cfg tr st =
     (case parse_byte cfg b (clearErrorParse st) of
        Inl f \<Rightarrow> Inl f
      | Inr (Return r, st2) \<Rightarrow> Inr (r, advance tr rest, st2)
      | Inr (Again, st2) \<Rightarrow>
          if Use1ByteParsing cfg then Inr (False, advance tr rest, st2)
          else parse cfg (advance tr rest) st2)"
  by (subst parse.simps)
     (simp add: Let_def advance_def clearErrorParse_def
           split: sum.splits prod.splits outcome.splits)

lemmas parse_defs =
  parse_byte_def parse_start_def parse_start_check_def parse_pending_def parse_store_def
  parseError_def resetInput_def errorCallback_def getTypeFromStatusByte_def
  getChannelFromStatusByte_def isChannelMessage_def usub1_def UINT_MAX_def ErrorParse_def
  clearErrorParse_def MidiType_defs Let_def

lemma parse_loop_empty:
  "rxbuf tr = [] \<Longrightarrow>
   parse_loop cfg n tr st = Inr ([], tr\<lparr>calls := calls tr @ replicate n T_available\<rparr>, st)"
  by (induction n arbitrary: tr) (simp_all add: parse_Nil replicate_app_Cons_same)

lemmas read_defs =
  read_def read_on_def activeSensingBefore_def activeSensingAfter_def
  handleNullVelocityNoteOnAsNoteOff_def inputFilter_def thruFilter_def sendMessage_def
  emit_def

lemmas fixture_defs =
  idle_tr_def idle_st_def sketch_setup_def begin_midi_def MidiInterface_new_def
  setHandle_def example_settings_def arrive_def advance_def now_def
  MIDI_CHANNEL_OMNI_def MIDI_CHANNEL_OFF_def

section \<open>Frame lemmas\<close>

text \<open>
  What the pieces of \<^verbatim>\<open>parse\<close> and \<^verbatim>\<open>read\<close> leave unchanged, and what the
  dispatcher records.
\<close>

lemma parse_start_check_frame:
  "parse_start_check t st = Inr (r, st') \<Longrightarrow>
     events st' = events st \<and> handlers st' = handlers st \<and> (r = Return True \<longrightarrow> m_valid (mMessage st'))
     \<and> r \<noteq> Return False"
  by (auto simp: parse_start_check_def split: if_splits)

lemma parse_start_frame:
  "parse_start cfg b st = Inr (r, st') \<Longrightarrow> r \<noteq> Return False \<Longrightarrow>
     events st' = events st \<and> handlers st' = handlers st \<and> (r = Return True \<longrightarrow> m_valid (mMessage st'))"
  unfolding parse_start_def Let_def
  by (auto split: if_splits dest!: parse_start_check_frame)

lemma parse_store_frame:
  "parse_store cfg b st = Inr (r, st') \<Longrightarrow> r \<noteq> Return False \<Longrightarrow>
     events st' = events st \<and> handlers st' = handlers st \<and> (r = Return True \<longrightarrow> m_valid (mMessage st'))"
  unfolding parse_store_def Let_def
  by (auto split: if_splits)

lemma parse_pending_frame:
  "parse_pending cfg b st = Inr (r, st') \<Longrightarrow> r \<noteq> Return False \<Longrightarrow>
     events st' = events st \<and> handlers st' = handlers st \<and> (r = Return True \<longrightarrow> m_valid (mMessage st'))"
  unfolding parse_pending_def Let_def
  by (auto simp: resetInput_def split: if_splits dest!: parse_store_frame)

lemma parse_byte_frame:
  "parse_byte cfg b st = Inr (r, st') \<Longrightarrow> r \<noteq> Return False \<Longrightarrow>
     events st' = events st \<and> handlers st' = handlers st \<and> (r = Return True \<longrightarrow> m_valid (mMessage st'))"
  unfolding parse_byte_def
  by (auto split: if_splits dest!: parse_start_frame parse_pending_frame)

lemma parse_True_frame:
  "parse cfg tr st = Inr (True, tr', st') \<Longrightarrow>
     events st' = events st \<and> handlers st' = handlers st \<and> m_valid (mMessage st')"
proof (induction "rxbuf tr" arbitrary: tr st)
  case Nil
  then show ?case by (simp add: parse_Nil)
next
  case (Cons b rest)
  from Cons.hyps(2) have rx: "rxbuf tr = b # rest" by simp
  have adv: "rest = rxbuf (advance tr rest)" by (simp add: advance_def)
  have ce: "events (clearErrorParse st) = events st" "handlers (clearErrorParse st) = handlers st"
    by (simp_all add: clearErrorParse_def)
  show ?case
  proof (cases "parse_byte cfg b (clearErrorParse st)")
    case (Inl f)
    with Cons.prems rx show ?thesis by (simp add: parse_Cons)
  next
    case (Inr p)
    obtain r st2 where p: "p = (r, st2)" by (cases p)
    show ?thesis
    proof (cases r)
      case (Return x)
      with Cons.prems rx Inr p have "x = True" "st' = st2" by (simp_all add: parse_Cons)
      with parse_byte_frame [of cfg b "clearErrorParse st" r st2] Inr p Return ce
      show ?thesis by simp
    next
      case Again
      with Cons.prems rx Inr p have m: "\<not> Use1ByteParsing cfg"
        and rec: "parse cfg (advance tr rest) st2 = Inr (True, tr', st')"
        by (auto simp: parse_Cons split: if_splits)
      from Cons.hyps(1) [OF adv rec] parse_byte_frame [of cfg b "clearErrorParse st" r st2] Inr p Again ce
      show ?thesis by simp
    qed
  qed
qed

text \<open>The handler calls among the events, without the error handler and the send path.\<close>

fun is_dispatch :: "event \<Rightarrow> bool" where
  "is_dispatch (Invoke cb m) = True"
| "is_dispatch _ = False"

definition dispatches :: "event list \<Rightarrow> event list" where
  "dispatches es = filter is_dispatch es"

lemma activeSensingBefore_frame:
  "dispatches (events (activeSensingBefore cfg st)) = dispatches (events st)"
  "handlers (activeSensingBefore cfg st) = handlers st"
  by (simp_all add: dispatches_def activeSensingBefore_def errorCallback_def emit_def Let_def)

lemma activeSensingAfter_frame:
  "dispatches (events (activeSensingAfter cfg st)) = dispatches (events st)"
  "handlers (activeSensingAfter cfg st) = handlers st"
  "mMessage (activeSensingAfter cfg st) = mMessage st"
  by (simp_all add: dispatches_def activeSensingAfter_def errorCallback_def emit_def Let_def)

lemma invoke_frame [simp]:
  "mMessage (invoke cb st) = mMessage st"
  "handlers (invoke cb st) = handlers st"
  "events (invoke cb st) = events st @ (if handlers st cb then [Invoke cb (mMessage st)] else [])"
  by (simp_all add: invoke_def)

lemma launchCallback_frame:
  "mMessage (launchCallback st) = mMessage st"
  unfolding launchCallback_def Let_def by simp

lemma launchCallback_NoteOn:
  "m_type (mMessage st) = NoteOn \<Longrightarrow>
   events (launchCallback st) =
     events st @ (if handlers st MessageCallback then [Invoke MessageCallback (mMessage st)] else [])
       @ (if handlers st NoteOnCallback then [Invoke NoteOnCallback (mMessage st)] else [])"
  unfolding launchCallback_def Let_def by (simp add: MidiType_defs)

lemma launchCallback_NoteOff:
  "m_type (mMessage st) = NoteOff \<Longrightarrow>
   events (launchCallback st) =
     events st @ (if handlers st MessageCallback then [Invoke MessageCallback (mMessage st)] else [])
       @ (if handlers st NoteOffCallback then [Invoke NoteOffCallback (mMessage st)] else [])"
  unfolding launchCallback_def Let_def by (simp add: MidiType_defs)

lemma launchCallback_as_invoke:
  "m_type (mMessage st) = SystemExclusive \<Longrightarrow>
     launchCallback st = invoke SystemExclusiveCallback (invoke MessageCallback st)"
  "m_type (mMessage st) = NoteOn \<Longrightarrow>
     launchCallback st = invoke NoteOnCallback (invoke MessageCallback st)"
  "m_type (mMessage st) = NoteOff \<Longrightarrow>
     launchCallback st = invoke NoteOffCallback (invoke MessageCallback st)"
  "m_type (mMessage st) = Clock \<Longrightarrow>
     launchCallback st = invoke ClockCallback (invoke MessageCallback st)"
  "m_type (mMessage st) = Tick \<Longrightarrow>
     launchCallback st = invoke TickCallback (invoke MessageCallback st)"
  unfolding launchCallback_def Let_def by (simp_all add: MidiType_defs)


lemma emit_frame [simp]:
  "mMessage (emit e st) = mMessage st"
  "events (emit e st) = events st @ [e]"
  "handlers (emit e st) = handlers st"
  by (simp_all add: emit_def)

lemma sendMessage_frame [simp]:
  "mMessage (sendMessage st) = mMessage st"
  "dispatches (events (sendMessage st)) = dispatches (events st)"
  by (simp_all add: sendMessage_def dispatches_def)

lemma thruFilter_off: "\<not> mThruActivated st \<or> mThruFilterMode st = Thru_Off \<Longrightarrow> thruFilter st ch = st"
  by (simp add: thruFilter_def)


lemma thruFilter_message: "mMessage (thruFilter st ch) = mMessage st"
  unfolding thruFilter_def Let_def
  by (cases "mThruFilterMode st") simp_all

lemma dispatches_snoc [simp]:
  "dispatches (es @ fs) = dispatches es @ dispatches fs"
  "dispatches [] = []"
  "dispatches (e # es) = (if is_dispatch e then e # dispatches es else dispatches es)"
  by (simp_all add: dispatches_def)

lemma thruFilter_dispatches: "dispatches (events (thruFilter st ch)) = dispatches (events st)"
  unfolding thruFilter_def Let_def
  by (cases "mThruFilterMode st") simp_all

lemma thruFilter_handlers: "handlers (thruFilter st ch) = handlers st"
  unfolding thruFilter_def Let_def sendMessage_def
  by (cases "mThruFilterMode st") simp_all

lemma read_on_parsed:
  assumes "\<not> MIDI_CHANNEL_OFF \<le> ch"
    and "parse cfg tr (activeSensingBefore cfg st) = Inr (True, tr', st2)"
  shows "read_on cfg ch tr st =
     Inr (inputFilter (handleNullVelocityNoteOnAsNoteOff cfg (activeSensingAfter cfg st2)) ch, tr',
          thruFilter
            (if inputFilter (handleNullVelocityNoteOnAsNoteOff cfg (activeSensingAfter cfg st2)) ch
             then launchCallback (handleNullVelocityNoteOnAsNoteOff cfg (activeSensingAfter cfg st2))
             else handleNullVelocityNoteOnAsNoteOff cfg (activeSensingAfter cfg st2)) ch)"
  using assms by (simp add: read_on_def Let_def)

lemma handleNull_frame [simp]:
  "events (handleNullVelocityNoteOnAsNoteOff cfg st) = events st"
  "handlers (handleNullVelocityNoteOnAsNoteOff cfg st) = handlers st"
  "m_channel (mMessage (handleNullVelocityNoteOnAsNoteOff cfg st)) = m_channel (mMessage st)"
  "m_data1 (mMessage (handleNullVelocityNoteOnAsNoteOff cfg st)) = m_data1 (mMessage st)"
  "m_data2 (mMessage (handleNullVelocityNoteOnAsNoteOff cfg st)) = m_data2 (mMessage st)"
  "m_valid (mMessage (handleNullVelocityNoteOnAsNoteOff cfg st)) = m_valid (mMessage st)"
  by (simp_all add: handleNullVelocityNoteOnAsNoteOff_def)

lemma handleNull_type:
  "m_type (mMessage st) = NoteOn \<Longrightarrow>
   m_type (mMessage (handleNullVelocityNoteOnAsNoteOff cfg st)) =
     (if HandleNullVelocityNoteOnAsNoteOff cfg \<and> m_data2 (mMessage st) = 0
      then NoteOff else NoteOn)"
  by (simp add: handleNullVelocityNoteOnAsNoteOff_def)


lemma replicate_3: "replicate 3 x = [x, x, x]"
  by (simp add: numeral_3_eq_3)


subsection \<open>A sysex message in progress\<close>


lemma invoke_fields [simp]:
  "mPendingMessage (invoke cb st) = mPendingMessage st"
  "mPendingMessageIndex (invoke cb st) = mPendingMessageIndex st"
  "mPendingMessageExpectedLength (invoke cb st) = mPendingMessageExpectedLength st"
  "mRunningStatus_RX (invoke cb st) = mRunningStatus_RX st"
  "mInputChannel (invoke cb st) = mInputChannel st"
  by (simp_all add: invoke_def)

lemma launchCallback_fields [simp]:
  "mMessage (launchCallback st) = mMessage st"
  "handlers (launchCallback st) = handlers st"
  "mPendingMessage (launchCallback st) = mPendingMessage st"
  "mPendingMessageIndex (launchCallback st) = mPendingMessageIndex st"
  "mPendingMessageExpectedLength (launchCallback st) = mPendingMessageExpectedLength st"
  "mRunningStatus_RX (launchCallback st) = mRunningStatus_RX st"
  "mInputChannel (launchCallback st) = mInputChannel st"
  unfolding launchCallback_def Let_def by simp_all


text \<open>The sysex message in progress: the bytes received so far.\<close>

definition sysex_open :: "settings \<Rightarrow> midi \<Rightarrow> byte list \<Rightarrow> bool" where
  "sysex_open cfg st cur \<longleftrightarrow>
     (pm_get (mPendingMessage st) 0 = SystemExclusiveStart
        \<or> pm_get (mPendingMessage st) 0 = SystemExclusiveEnd)
     \<and> mPendingMessageExpectedLength st = SysExMaxSize cfg
     \<and> length (m_sysexArray (mMessage st)) = SysExMaxSize cfg
     \<and> mPendingMessageIndex st = Suc (length cur)
     \<and> Suc (length cur) < SysExMaxSize cfg
     \<and> (take (Suc (length cur)) (m_sysexArray (mMessage st)) = SystemExclusiveStart # cur
          \<or> take (Suc (length cur)) (m_sysexArray (mMessage st)) = SystemExclusiveEnd # cur)"





definition overflow_chunk :: "settings \<Rightarrow> midi \<Rightarrow> Message" where
  "overflow_chunk cfg st =
     (mMessage st)\<lparr>
        m_sysexArray := (m_sysexArray (mMessage st))[SysExMaxSize cfg - 1 := SystemExclusiveStart],
        m_type := SystemExclusive,
        m_data1 := of_nat (SysExMaxSize cfg mod 256),
        m_data2 := of_nat (SysExMaxSize cfg div 256),
        m_channel := 0,
        m_length := SysExMaxSize cfg,
        m_valid := True\<rparr>"

definition final_chunk :: "midi \<Rightarrow> Message" where
  "final_chunk st =
     (mMessage st)\<lparr>
        m_sysexArray := (m_sysexArray (mMessage st))[mPendingMessageIndex st := SystemExclusiveEnd],
        m_type := SystemExclusive,
        m_data1 := of_nat (Suc (mPendingMessageIndex st) mod 256),
        m_data2 := of_nat (Suc (mPendingMessageIndex st) div 256),
        m_channel := 0,
        m_length := Suc (mPendingMessageIndex st),
        m_valid := True\<rparr>"







subsection \<open>A sysex stream through \<^verbatim>\<open>read\<close>\<close>

text \<open>The messages handed to the sysex handler, in order.\<close>

fun sysex_of :: "event \<Rightarrow> Message list" where
  "sysex_of (Invoke cb m) = (if cb = SystemExclusiveCallback then [m] else [])"
| "sysex_of _ = []"

definition sysex_calls :: "event list \<Rightarrow> Message list" where
  "sysex_calls es = concat (map sysex_of es)"

lemma sysex_calls_simps [simp]:
  "sysex_calls [] = []"
  "sysex_calls (es @ fs) = sysex_calls es @ sysex_calls fs"
  "sysex_calls (e # es) = sysex_of e @ sysex_calls es"
  by (simp_all add: sysex_calls_def)





lemma sysex_calls_activeSensingBefore [simp]:
  "sysex_calls (events (activeSensingBefore cfg st)) = sysex_calls (events st)"
  by (simp add: activeSensingBefore_def errorCallback_def Let_def)

lemma sysex_calls_activeSensingAfter [simp]:
  "sysex_calls (events (activeSensingAfter cfg st)) = sysex_calls (events st)"
  by (simp add: activeSensingAfter_def errorCallback_def Let_def)

lemma sysex_calls_thruFilter [simp]:
  "sysex_calls (events (thruFilter st ch)) = sysex_calls (events st)"
  unfolding thruFilter_def Let_def sendMessage_def
  by (cases "mThruFilterMode st") simp_all


definition ready :: "midi \<Rightarrow> bool" where
  "ready st \<longleftrightarrow>
     \<not> MIDI_CHANNEL_OFF \<le> mInputChannel st \<and> handlers st SystemExclusiveCallback"


lemma clearErrorParse_fields [simp]:
  "events (clearErrorParse st) = events st"
  "handlers (clearErrorParse st) = handlers st"
  "mInputChannel (clearErrorParse st) = mInputChannel st"
  "mMessage (clearErrorParse st) = mMessage st"
  "mPendingMessageIndex (clearErrorParse st) = mPendingMessageIndex st"
  "sysex_open cfg (clearErrorParse st) cur = sysex_open cfg st cur"
  "overflow_chunk cfg (clearErrorParse st) = overflow_chunk cfg st"
  "final_chunk (clearErrorParse st) = final_chunk st"
  by (simp_all add: clearErrorParse_def sysex_open_def overflow_chunk_def final_chunk_def)

lemma activeSensingBefore_fields [simp]:
  "mInputChannel (activeSensingBefore cfg st) = mInputChannel st"
  "mMessage (activeSensingBefore cfg st) = mMessage st"
  "mPendingMessageIndex (activeSensingBefore cfg st) = mPendingMessageIndex st"
  "sysex_open cfg' (activeSensingBefore cfg st) cur = sysex_open cfg' st cur"
  "ready (activeSensingBefore cfg st) = ready st"
  by (simp_all add: activeSensingBefore_def errorCallback_def emit_def Let_def sysex_open_def
        ready_def)









section \<open>The claims\<close>

subsection \<open>C10: input switched off\<close>

text \<open>
  C10. A call of \<^verbatim>\<open>read\<close> with a listening channel at or above \<^verbatim>\<open>MIDI_CHANNEL_OFF\<close>
  returns false and hands back the transport as it was: its queue is untouched and its
  record of calls has neither \<open>T_available\<close> nor \<open>T_read\<close> added. The running
  status, the pending buffer, the pending index, the expected length and the stored
  message are unchanged.
\<close>

theorem read_channel_off:
  assumes "MIDI_CHANNEL_OFF \<le> inChannel"
  shows "\<exists>st'. read_on cfg inChannel tr st = Inr (False, tr, st')
           \<and> mRunningStatus_RX st' = mRunningStatus_RX st
           \<and> mPendingMessage st' = mPendingMessage st
           \<and> mPendingMessageIndex st' = mPendingMessageIndex st
           \<and> mPendingMessageExpectedLength st' = mPendingMessageExpectedLength st
           \<and> mMessage st' = mMessage st"
  using assms
  by (simp add: read_on_def activeSensingBefore_def errorCallback_def emit_def Let_def)

theorem read_channel_off_witness:
  "MIDI_CHANNEL_OFF \<le> MIDI_CHANNEL_OFF
   \<and> (\<exists>st'. read_on (example_settings 3 True) MIDI_CHANNEL_OFF
                (arrive [0x90, 60, 100] (fst (sketch_setup (example_settings 3 True))))
                (snd (sketch_setup (example_settings 3 True)))
              = Inr (False,
                     arrive [0x90, 60, 100] (fst (sketch_setup (example_settings 3 True))),
                     st')
            \<and> mPendingMessageIndex st' = 0)"
proof -
  have h: "MIDI_CHANNEL_OFF \<le> MIDI_CHANNEL_OFF" by simp
  from read_channel_off [OF h, of "example_settings 3 True"
      "arrive [0x90, 60, 100] (fst (sketch_setup (example_settings 3 True)))"
      "snd (sketch_setup (example_settings 3 True))"]
  obtain st' where
    "read_on (example_settings 3 True) MIDI_CHANNEL_OFF
        (arrive [0x90, 60, 100] (fst (sketch_setup (example_settings 3 True))))
        (snd (sketch_setup (example_settings 3 True)))
      = Inr (False, arrive [0x90, 60, 100] (fst (sketch_setup (example_settings 3 True))), st')"
    and "mPendingMessageIndex st' = mPendingMessageIndex (snd (sketch_setup (example_settings 3 True)))"
    by blast
  moreover have "mPendingMessageIndex (snd (sketch_setup (example_settings 3 True))) = 0"
    by (simp add: fixture_defs)
  ultimately show ?thesis using h by auto
qed

subsection \<open>C9: the thru filter on channel messages\<close>

text \<open>
  C9. For a stored channel message (type from NoteOff to PitchBend) with thru
  activated: in mode Full the thru filter calls \<^verbatim>\<open>send\<close> with the message; in mode
  SameChannel it does so exactly when the channel of the message is the listening
  channel or the listening channel is OMNI, and does nothing otherwise; in mode
  DifferentChannel it does so exactly when that condition is false.
\<close>

theorem thruFilter_channel_message:
  assumes "NoteOff \<le> m_type (mMessage st)" and "m_type (mMessage st) \<le> PitchBend"
    and "mThruActivated st"
  shows "(mThruFilterMode st = Thru_Full \<longrightarrow> thruFilter st inChannel = sendMessage st)
       \<and> (mThruFilterMode st = Thru_SameChannel \<longrightarrow>
            thruFilter st inChannel =
              (if m_channel (mMessage st) = inChannel \<or> inChannel = MIDI_CHANNEL_OMNI
               then sendMessage st else st))
       \<and> (mThruFilterMode st = Thru_DifferentChannel \<longrightarrow>
            thruFilter st inChannel =
              (if m_channel (mMessage st) = inChannel \<or> inChannel = MIDI_CHANNEL_OMNI
               then st else sendMessage st))
       \<and> events (sendMessage st) =
            events st @ [Send (m_type (mMessage st)) (m_data1 (mMessage st))
                           (m_data2 (mMessage st)) (m_channel (mMessage st))]"
  using assms by (simp add: thruFilter_def sendMessage_def emit_def Let_def)

text \<open>
  A NoteOn on channel 5 in the sketch's interface, the mode set to SameChannel: with
  the listening channel 3 nothing is sent.
\<close>

definition noteOn5 :: midi where
  "noteOn5 =
     (snd (sketch_setup (example_settings 3 True)))
       \<lparr>mThruFilterMode := Thru_SameChannel,
        mMessage := \<lparr>m_type = NoteOn, m_channel = 5, m_data1 = 60, m_data2 = 100,
                     m_sysexArray = [0, 0, 0], m_valid = True, m_length = 0\<rparr>\<rparr>"

theorem thruFilter_channel_message_witness:
  "NoteOff \<le> m_type (mMessage noteOn5) \<and> m_type (mMessage noteOn5) \<le> PitchBend
   \<and> mThruActivated noteOn5 \<and> mThruFilterMode noteOn5 = Thru_SameChannel
   \<and> thruFilter noteOn5 3 = noteOn5
   \<and> thruFilter noteOn5 5 = sendMessage noteOn5"
proof -
  have h1: "NoteOff \<le> m_type (mMessage noteOn5)"
    and h2: "m_type (mMessage noteOn5) \<le> PitchBend"
    and h3: "mThruActivated noteOn5"
    and h4: "mThruFilterMode noteOn5 = Thru_SameChannel"
    and h5: "m_channel (mMessage noteOn5) = 5"
    by (simp_all add: noteOn5_def fixture_defs MidiType_defs)
  from thruFilter_channel_message [OF h1 h2 h3, of 3] h4 h5
  have "thruFilter noteOn5 3 = noteOn5"
    by (simp add: MIDI_CHANNEL_OMNI_def)
  moreover from thruFilter_channel_message [OF h1 h2 h3, of 5] h4 h5
  have "thruFilter noteOn5 5 = sendMessage noteOn5"
    by simp
  ultimately show ?thesis using h1 h2 h3 h4 by simp
qed

subsection \<open>C8: the thru filter on one-byte system messages\<close>

text \<open>
  C8 (the code departs from the claim). The thru filter's list of one-byte messages
  (MIDI.hpp 944-950) has Clock, Start, Stop, Continue, ActiveSensing, SystemReset and
  TuneRequest, and not Tick: a stored Tick message is forwarded in no mode. The thru
  filter returns the interface as it was, so no call into the send path is recorded.
\<close>

theorem thruFilter_Tick_not_forwarded:
  assumes "m_type (mMessage st) = Tick"
  shows "thruFilter st inChannel = st"
  using assms by (simp add: thruFilter_def MidiType_defs Let_def)

text \<open>The sketch's interface holding a Tick message, thru on, mode Full.\<close>

definition tick_st :: midi where
  "tick_st =
     idle_st\<lparr>mMessage := \<lparr>m_type = Tick, m_channel = 0, m_data1 = 0, m_data2 = 0,
                          m_sysexArray = [0, 0, 0], m_valid = True, m_length = 0\<rparr>\<rparr>"

theorem thruFilter_Tick_not_forwarded_witness:
  "m_type (mMessage tick_st) = Tick \<and> mThruActivated tick_st
   \<and> mThruFilterMode tick_st = Thru_Full
   \<and> events (thruFilter tick_st MIDI_CHANNEL_OMNI) = []"
proof -
  have h: "m_type (mMessage tick_st) = Tick"
    by (simp add: tick_st_def)
  have "events tick_st = []" "mThruActivated tick_st" "mThruFilterMode tick_st = Thru_Full"
    by (simp_all add: tick_st_def fixture_defs)
  with thruFilter_Tick_not_forwarded [OF h, of MIDI_CHANNEL_OMNI] h
  show ?thesis by simp
qed

text \<open>
  The seven types the list does have are forwarded whenever thru is on: the call
  \<^verbatim>\<open>sendRealTime(mMessage.type)\<close> is recorded.
\<close>

lemma thruFilter_realtime_forwarded:
  assumes "m_type (mMessage st) \<in> set [Clock, Start, Stop, Continue, ActiveSensing,
                                          SystemReset, TuneRequest]"
    and "mThruActivated st" and "mThruFilterMode st \<noteq> Thru_Off"
  shows "thruFilter st inChannel = emit (SendRealTime (m_type (mMessage st))) st"
proof -
  from assms(1) have "\<not> m_type (mMessage st) \<le> PitchBend"
    by (auto simp: MidiType_defs)
  with assms show ?thesis
    by (simp add: thruFilter_def Let_def)
qed

text \<open>
  The same through \<^verbatim>\<open>read\<close>: the byte 0xF9 arrives at the idle interface. \<^verbatim>\<open>read\<close>
  returns true and stores a valid Tick message, and nothing is sent; for the byte 0xF8
  the call \<^verbatim>\<open>sendRealTime(Clock)\<close> is recorded.
\<close>

lemma read_Tick_example:
  "read (example_settings 3 True) (arrive [0xF9] idle_tr) idle_st
     = Inr (True, advance idle_tr [],
            idle_st\<lparr>mPendingMessage := (0xF9, 0, 0),
                    mMessage := (mMessage idle_st)\<lparr>m_type := Tick, m_valid := True\<rparr>\<rparr>)"
  "read (example_settings 3 True) (arrive [0xF8] idle_tr) idle_st
     = Inr (True, advance idle_tr [],
            idle_st\<lparr>mPendingMessage := (0xF8, 0, 0),
                    mMessage := (mMessage idle_st)\<lparr>m_type := Clock, m_valid := True\<rparr>,
                    events := [SendRealTime Clock]\<rparr>)"
  by (simp_all add: fixture_defs read_defs parse_Cons parse_defs launchCallback_as_invoke
        invoke_def)

subsection \<open>C6: the undefined status byte 0xF4\<close>

text \<open>
  C6 (amended). With no message in progress and no channel-message running status, the
  byte 0xF4 is not discarded silently. \<^verbatim>\<open>getTypeFromStatusByte\<close> classifies it as
  \<^verbatim>\<open>InvalidType\<close>, and \<^verbatim>\<open>parse\<close> takes its error exit: it returns false and leaves the
  stored message as it was, the ErrorParse bit of \<^verbatim>\<open>mLastError\<close> is set, the error
  handler is called if one is registered, and the input state is reset. (Only 0xFD is
  dropped before the classification.)
\<close>

theorem parse_F4_is_parse_error:
  assumes "mPendingMessageIndex st = 0"
    and "\<not> isChannelMessage (getTypeFromStatusByte (mRunningStatus_RX st))"
    and "rxbuf tr = Undefined_F4 # rest"
  shows "\<exists>st'. parse cfg tr st = Inr (False, advance tr rest, st')
           \<and> bit (mLastError st') ErrorParse
           \<and> events st' =
               events st @ (if handlers st ErrorCallback
                            then [InvokeError (mLastError st')] else [])
           \<and> mPendingMessageIndex st' = 0 \<and> mPendingMessageExpectedLength st' = 0
           \<and> mRunningStatus_RX st' = InvalidType
           \<and> mMessage st' = mMessage st"
  using assms
  by (simp add: parse_Cons parse_defs bit_simps)

theorem parse_F4_is_parse_error_witness:
  "mPendingMessageIndex idle_st = 0
   \<and> \<not> isChannelMessage (getTypeFromStatusByte (mRunningStatus_RX idle_st))
   \<and> rxbuf (arrive [Undefined_F4] idle_tr) = [Undefined_F4]
   \<and> (\<exists>st'. parse (example_settings 3 True) (arrive [Undefined_F4] idle_tr) idle_st
               = Inr (False, advance (arrive [Undefined_F4] idle_tr) [], st')
            \<and> bit (mLastError st') ErrorParse
            \<and> events st' = [InvokeError (mLastError st')])"
proof -
  have h1: "mPendingMessageIndex idle_st = 0"
    and h2: "\<not> isChannelMessage (getTypeFromStatusByte (mRunningStatus_RX idle_st))"
    and h3: "rxbuf (arrive [Undefined_F4] idle_tr) = Undefined_F4 # []"
    and h4: "handlers idle_st ErrorCallback" "events idle_st = []"
    by (simp_all add: fixture_defs getTypeFromStatusByte_def isChannelMessage_def
          MidiType_defs)
  from parse_F4_is_parse_error [OF h1 h2 h3, of "example_settings 3 True"] h4
  have "\<exists>st'. parse (example_settings 3 True) (arrive [Undefined_F4] idle_tr) idle_st
               = Inr (False, advance (arrive [Undefined_F4] idle_tr) [], st')
            \<and> bit (mLastError st') ErrorParse
            \<and> events st' = [InvokeError (mLastError st')]"
    by auto
  with h1 h2 h3 show ?thesis by simp
qed

text \<open>
  The claim fails at the idle interface of the sketch: after the byte 0xF4 the error
  accumulator is 1 (the ErrorParse bit) and the error handler has been called with it.
\<close>

theorem parse_F4_counterexample:
  "mPendingMessageIndex idle_st = 0
   \<and> \<not> isChannelMessage (getTypeFromStatusByte (mRunningStatus_RX idle_st))
   \<and> parse (example_settings 3 True) (arrive [0xF4] idle_tr) idle_st
       = Inr (False, advance idle_tr [],
              idle_st\<lparr>mPendingMessage := (0xF4, 0, 0), mLastError := 1,
                      events := [InvokeError 1]\<rparr>)
   \<and> bit (1 :: byte) ErrorParse"
  by (simp add: fixture_defs parse_Cons parse_defs)

subsection \<open>C1: a status byte in the middle of a message\<close>

text \<open>
  C1 (the code departs from the claim). In the branch for a message in progress, the
  \<^verbatim>\<open>switch\<close> on a status byte handles the real-time bytes and 0xF0/0xF7; for every
  other status byte its \<^verbatim>\<open>default\<close> falls through, and the byte is stored like a data
  byte. When it is the last byte the pending three-byte message waits for, \<^verbatim>\<open>parse\<close>
  returns true with a valid message whose second data byte is that status byte; the
  ErrorParse bit is clear and no handler is called.
\<close>

theorem parse_status_byte_midstream:
  assumes "mPendingMessageIndex st = 2" and "mPendingMessageExpectedLength st = 3"
    and "pm_get (mPendingMessage st) 0 \<noteq> SystemExclusiveStart"
    and "pm_get (mPendingMessage st) 0 \<noteq> SystemExclusiveEnd"
    and "0x80 \<le> b"
    and "b \<notin> set [Clock, Start, Tick, Continue, Stop, ActiveSensing, SystemReset,
                   SystemExclusiveStart, SystemExclusiveEnd, Undefined_FD]"
    and "rxbuf tr = b # rest"
  shows "\<exists>st'. parse cfg tr st = Inr (True, advance tr rest, st')
           \<and> m_valid (mMessage st')
           \<and> m_type (mMessage st') = getTypeFromStatusByte (pm_get (mPendingMessage st) 0)
           \<and> m_data1 (mMessage st') = pm_get (mPendingMessage st) 1
           \<and> m_data2 (mMessage st') = b
           \<and> \<not> bit (mLastError st') ErrorParse
           \<and> events st' = events st"
  using assms
  by (simp add: parse_Cons parse_byte_def parse_pending_def parse_store_def usub1_def
        clearErrorParse_def ErrorParse_def Let_def bit_simps)

text \<open>The idle interface after the bytes 0x90 and 60.\<close>

definition noteOn_pending :: midi where
  "noteOn_pending =
     idle_st\<lparr>mPendingMessage := (0x90, 60, 0), mPendingMessageIndex := 2,
             mPendingMessageExpectedLength := 3\<rparr>"

theorem parse_status_byte_midstream_witness:
  "mPendingMessageIndex noteOn_pending = 2
   \<and> mPendingMessageExpectedLength noteOn_pending = 3
   \<and> pm_get (mPendingMessage noteOn_pending) 0 = 0x90
   \<and> rxbuf (arrive [0x80] idle_tr) = [0x80]
   \<and> (\<exists>st'. parse (example_settings 3 True) (arrive [0x80] idle_tr) noteOn_pending
               = Inr (True, advance (arrive [0x80] idle_tr) [], st')
            \<and> m_valid (mMessage st') \<and> m_type (mMessage st') = NoteOn
            \<and> m_data1 (mMessage st') = 60 \<and> m_data2 (mMessage st') = 0x80
            \<and> \<not> bit (mLastError st') ErrorParse \<and> events st' = [])"
proof -
  have h1: "mPendingMessageIndex noteOn_pending = 2"
    and h2: "mPendingMessageExpectedLength noteOn_pending = 3"
    and h3: "pm_get (mPendingMessage noteOn_pending) 0 \<noteq> SystemExclusiveStart"
    and h4: "pm_get (mPendingMessage noteOn_pending) 0 \<noteq> SystemExclusiveEnd"
    and h5: "(0x80 :: byte) \<le> 0x80"
    and h6: "(0x80 :: byte) \<notin> set [Clock, Start, Tick, Continue, Stop, ActiveSensing,
               SystemReset, SystemExclusiveStart, SystemExclusiveEnd, Undefined_FD]"
    and h7: "rxbuf (arrive [0x80] idle_tr) = 0x80 # []"
    and e: "pm_get (mPendingMessage noteOn_pending) 0 = 0x90"
      "pm_get (mPendingMessage noteOn_pending) 1 = 60" "events noteOn_pending = []"
      "getTypeFromStatusByte 0x90 = NoteOn"
    by (simp_all add: noteOn_pending_def fixture_defs MidiType_defs
          getTypeFromStatusByte_def)
  from parse_status_byte_midstream [OF h1 h2 h3 h4 h5 h6 h7, of "example_settings 3 True"] e
  have "\<exists>st'. parse (example_settings 3 True) (arrive [0x80] idle_tr) noteOn_pending
               = Inr (True, advance (arrive [0x80] idle_tr) [], st')
            \<and> m_valid (mMessage st') \<and> m_type (mMessage st') = NoteOn
            \<and> m_data1 (mMessage st') = 60 \<and> m_data2 (mMessage st') = 0x80
            \<and> \<not> bit (mLastError st') ErrorParse \<and> events st' = []"
    by auto
  with h1 h2 h7 e show ?thesis by simp
qed

text \<open>
  From the idle interface: the bytes 0x90, 60, 0x80 give one message, a NoteOn on
  channel 1 with the data bytes 60 and 0x80, and no error.
\<close>

lemma status_byte_midstream_example:
  "parse_loop (example_settings 3 True) 3 (arrive [0x90, 60, 0x80] idle_tr) idle_st
     = Inr ([(advance (advance (advance idle_tr [60, 0x80]) [0x80]) [],
              idle_st\<lparr>mPendingMessage := (0x90, 60, 0x80), mRunningStatus_RX := 0x90,
                      mMessage := (mMessage idle_st)\<lparr>m_type := NoteOn, m_channel := 1,
                        m_data1 := 60, m_data2 := 0x80, m_valid := True\<rparr>\<rparr>)],
            advance (advance (advance idle_tr [60, 0x80]) [0x80]) [],
            idle_st\<lparr>mPendingMessage := (0x90, 60, 0x80), mRunningStatus_RX := 0x90,
                    mMessage := (mMessage idle_st)\<lparr>m_type := NoteOn, m_channel := 1,
                      m_data1 := 60, m_data2 := 0x80, m_valid := True\<rparr>\<rparr>)"
  by (simp add: numeral_3_eq_3 fixture_defs parse_Cons parse_defs)

subsection \<open>C4: a real-time byte inside a message\<close>

text \<open>
  C4. From a freshly begun interface (any state before \<^verbatim>\<open>begin\<close>, any settings, any
  listening channel), the bytes 0x90, 0xF8, 60, 100 give exactly two messages over four
  or more calls of \<^verbatim>\<open>parse\<close>. The first is a valid Clock message, returned when 0xF8
  has been read and 60, 100 are still waiting; at that point the pending NoteOn is as
  the byte 0x90 left it (status 0x90 in the pending buffer, index 1, expected length
  3). The second is a valid NoteOn on channel 1 with data1 = 60 and data2 = 100.
\<close>

theorem realtime_interleaving:
  "\<exists>tr1 s1 tr2 s2 tr' st'.
     parse_loop cfg (4 + k)
        ((fst (begin_midi inChannel tr0 st0))\<lparr>rxbuf := [0x90, 0xF8, 60, 100]\<rparr>)
        (snd (begin_midi inChannel tr0 st0))
       = Inr ([(tr1, s1), (tr2, s2)], tr', st')
     \<and> rxbuf tr1 = [60, 100]
     \<and> m_type (mMessage s1) = Clock \<and> m_valid (mMessage s1)
     \<and> pm_get (mPendingMessage s1) 0 = 0x90
     \<and> mPendingMessageIndex s1 = 1 \<and> mPendingMessageExpectedLength s1 = 3
     \<and> mRunningStatus_RX s1 = InvalidType
     \<and> rxbuf tr2 = []
     \<and> m_type (mMessage s2) = NoteOn \<and> m_valid (mMessage s2)
     \<and> m_channel (mMessage s2) = 1 \<and> m_data1 (mMessage s2) = 60
     \<and> m_data2 (mMessage s2) = 100"
proof -
  have k: "4 + k = Suc (Suc (Suc (Suc k)))" by simp
  show ?thesis
    unfolding k
    by (cases "Use1ByteParsing cfg")
       (simp_all add: begin_midi_def parse_Cons parse_Nil parse_loop_empty parse_defs
          advance_def)
qed

theorem realtime_interleaving_witness:
  "\<exists>tr1 s1 tr2 s2 tr' st'.
     parse_loop (example_settings 3 False) (4 + 0)
        ((fst (begin_midi MIDI_CHANNEL_OMNI \<lparr>rxbuf = [], calls = []\<rparr>
                 (MidiInterface_new (example_settings 3 False))))
           \<lparr>rxbuf := [0x90, 0xF8, 60, 100]\<rparr>)
        (snd (begin_midi MIDI_CHANNEL_OMNI \<lparr>rxbuf = [], calls = []\<rparr>
                (MidiInterface_new (example_settings 3 False))))
       = Inr ([(tr1, s1), (tr2, s2)], tr', st')
     \<and> rxbuf tr1 = [60, 100]
     \<and> m_type (mMessage s1) = Clock \<and> m_valid (mMessage s1)
     \<and> pm_get (mPendingMessage s1) 0 = 0x90
     \<and> mPendingMessageIndex s1 = 1 \<and> mPendingMessageExpectedLength s1 = 3
     \<and> mRunningStatus_RX s1 = InvalidType
     \<and> rxbuf tr2 = []
     \<and> m_type (mMessage s2) = NoteOn \<and> m_valid (mMessage s2)
     \<and> m_channel (mMessage s2) = 1 \<and> m_data1 (mMessage s2) = 60
     \<and> m_data2 (mMessage s2) = 100"
  by (rule realtime_interleaving)

subsection \<open>C5: running status\<close>

text \<open>
  C5. From a freshly begun interface, the bytes 0x90, 60, 100 followed by 61, 110 give
  exactly two messages over five or more calls of \<^verbatim>\<open>parse\<close>: a valid NoteOn on channel
  1 with data1 = 60 and data2 = 100, then a valid NoteOn on channel 1 with data1 = 61
  and data2 = 110, the status byte of the second taken from the running status.
\<close>

theorem running_status:
  "\<exists>tr1 s1 tr2 s2 tr' st'.
     parse_loop cfg (5 + k)
        ((fst (begin_midi inChannel tr0 st0))\<lparr>rxbuf := [0x90, 60, 100] @ [61, 110]\<rparr>)
        (snd (begin_midi inChannel tr0 st0))
       = Inr ([(tr1, s1), (tr2, s2)], tr', st')
     \<and> rxbuf tr1 = [61, 110]
     \<and> m_type (mMessage s1) = NoteOn \<and> m_valid (mMessage s1)
     \<and> m_channel (mMessage s1) = 1 \<and> m_data1 (mMessage s1) = 60
     \<and> m_data2 (mMessage s1) = 100
     \<and> mRunningStatus_RX s1 = 0x90
     \<and> rxbuf tr2 = []
     \<and> m_type (mMessage s2) = NoteOn \<and> m_valid (mMessage s2)
     \<and> m_channel (mMessage s2) = 1 \<and> m_data1 (mMessage s2) = 61
     \<and> m_data2 (mMessage s2) = 110"
proof -
  have k: "5 + k = Suc (Suc (Suc (Suc (Suc k))))" by simp
  show ?thesis
    unfolding k
    by (cases "Use1ByteParsing cfg")
       (simp_all add: begin_midi_def parse_Cons parse_Nil parse_loop_empty parse_defs
          advance_def)
qed

theorem running_status_witness:
  "\<exists>tr1 s1 tr2 s2 tr' st'.
     parse_loop (example_settings 3 True) (5 + 0)
        ((fst (begin_midi 1 \<lparr>rxbuf = [], calls = []\<rparr>
                 (MidiInterface_new (example_settings 3 True))))
           \<lparr>rxbuf := [0x90, 60, 100] @ [61, 110]\<rparr>)
        (snd (begin_midi 1 \<lparr>rxbuf = [], calls = []\<rparr>
                (MidiInterface_new (example_settings 3 True))))
       = Inr ([(tr1, s1), (tr2, s2)], tr', st')
     \<and> rxbuf tr1 = [61, 110]
     \<and> m_type (mMessage s1) = NoteOn \<and> m_valid (mMessage s1)
     \<and> m_channel (mMessage s1) = 1 \<and> m_data1 (mMessage s1) = 60
     \<and> m_data2 (mMessage s1) = 100
     \<and> mRunningStatus_RX s1 = 0x90
     \<and> rxbuf tr2 = []
     \<and> m_type (mMessage s2) = NoteOn \<and> m_valid (mMessage s2)
     \<and> m_channel (mMessage s2) = 1 \<and> m_data1 (mMessage s2) = 61
     \<and> m_data2 (mMessage s2) = 110"
  by (rule running_status)

subsection \<open>C3: the sysex buffer is full\<close>







subsection \<open>C7: the channel filter\<close>

text \<open>
  C7 (amended). Let \<^verbatim>\<open>parse\<close>, called from \<^verbatim>\<open>read\<close>, complete a NoteOn message on
  channel 5. With the listening channel 3 the message is stored valid, no handler is
  called and \<^verbatim>\<open>read\<close> returns false. With the listening channel OMNI \<^verbatim>\<open>read\<close>
  returns true and the message goes to the message handler and to the NoteOn handler
  (each if registered), unless its velocity is 0 and null-velocity handling is
  enabled: then it has been rewritten to NoteOff and goes to the NoteOff handler.
\<close>

theorem channel_filter_NoteOn:
  assumes p: "parse cfg tr (activeSensingBefore cfg st) = Inr (True, tr', st2)"
    and t: "m_type (mMessage st2) = NoteOn" and c: "m_channel (mMessage st2) = 5"
  shows "(\<exists>st3. read_on cfg 3 tr st = Inr (False, tr', st3)
            \<and> m_valid (mMessage st3)
            \<and> dispatches (events st3) = dispatches (events st))
       \<and> (\<exists>st4. read_on cfg MIDI_CHANNEL_OMNI tr st = Inr (True, tr', st4)
            \<and> m_valid (mMessage st4)
            \<and> m_channel (mMessage st4) = 5
            \<and> m_data1 (mMessage st4) = m_data1 (mMessage st2)
            \<and> m_data2 (mMessage st4) = m_data2 (mMessage st2)
            \<and> dispatches (events st4) =
                dispatches (events st)
                @ (if handlers st MessageCallback
                   then [Invoke MessageCallback (mMessage st4)] else [])
                @ (if HandleNullVelocityNoteOnAsNoteOff cfg \<and> m_data2 (mMessage st2) = 0
                   then (if handlers st NoteOffCallback
                         then [Invoke NoteOffCallback (mMessage st4)] else [])
                   else (if handlers st NoteOnCallback
                         then [Invoke NoteOnCallback (mMessage st4)] else [])))"
proof -
  define s3 where "s3 = handleNullVelocityNoteOnAsNoteOff cfg (activeSensingAfter cfg st2)"
  from parse_True_frame [OF p]
  have ev: "dispatches (events st2) = dispatches (events st)"
    and hd: "handlers st2 = handlers st" and va: "m_valid (mMessage st2)"
    by (simp_all add: activeSensingBefore_frame)
  have ty: "m_type (mMessage s3) =
      (if HandleNullVelocityNoteOnAsNoteOff cfg \<and> m_data2 (mMessage st2) = 0
       then NoteOff else NoteOn)"
    unfolding s3_def using t by (simp add: handleNull_type activeSensingAfter_frame)
  have s3: "m_channel (mMessage s3) = 5" "m_valid (mMessage s3)"
    "m_data1 (mMessage s3) = m_data1 (mMessage st2)"
    "m_data2 (mMessage s3) = m_data2 (mMessage st2)"
    "dispatches (events s3) = dispatches (events st)" "handlers s3 = handlers st"
    unfolding s3_def using c va ev hd by (simp_all add: activeSensingAfter_frame)
  have f3: "\<not> inputFilter s3 3" and fo: "inputFilter s3 MIDI_CHANNEL_OMNI"
    using ty s3(1) by (simp_all add: inputFilter_def MidiType_defs MIDI_CHANNEL_OMNI_def)
  have off: "\<not> MIDI_CHANNEL_OFF \<le> 3" "\<not> MIDI_CHANNEL_OFF \<le> MIDI_CHANNEL_OMNI"
    by (simp_all add: MIDI_CHANNEL_OFF_def MIDI_CHANNEL_OMNI_def)
  have r3: "read_on cfg 3 tr st = Inr (False, tr', thruFilter s3 3)"
    using read_on_parsed [OF off(1) p] f3 by (simp add: s3_def)
  have ro: "read_on cfg MIDI_CHANNEL_OMNI tr st
      = Inr (True, tr', thruFilter (launchCallback s3) MIDI_CHANNEL_OMNI)"
    using read_on_parsed [OF off(2) p] fo by (simp add: s3_def)
  have lc: "events (launchCallback s3) =
      events s3
      @ (if handlers st MessageCallback then [Invoke MessageCallback (mMessage s3)] else [])
      @ (if HandleNullVelocityNoteOnAsNoteOff cfg \<and> m_data2 (mMessage st2) = 0
         then (if handlers st NoteOffCallback then [Invoke NoteOffCallback (mMessage s3)] else [])
         else (if handlers st NoteOnCallback then [Invoke NoteOnCallback (mMessage s3)] else []))"
  proof (cases "HandleNullVelocityNoteOnAsNoteOff cfg \<and> m_data2 (mMessage st2) = 0")
    case True
    with ty have "m_type (mMessage s3) = NoteOff" by simp
    from launchCallback_NoteOff [OF this] True s3(6) show ?thesis by simp
  next
    case False
    with ty have "m_type (mMessage s3) = NoteOn" by simp
    from launchCallback_NoteOn [OF this] False s3(6) show ?thesis by simp
  qed
  have a: "\<exists>st3. read_on cfg 3 tr st = Inr (False, tr', st3)
            \<and> m_valid (mMessage st3)
            \<and> dispatches (events st3) = dispatches (events st)"
    using r3 s3 by (simp add: thruFilter_message thruFilter_dispatches)
  have b: "\<exists>st4. read_on cfg MIDI_CHANNEL_OMNI tr st = Inr (True, tr', st4)
            \<and> m_valid (mMessage st4)
            \<and> m_channel (mMessage st4) = 5
            \<and> m_data1 (mMessage st4) = m_data1 (mMessage st2)
            \<and> m_data2 (mMessage st4) = m_data2 (mMessage st2)
            \<and> dispatches (events st4) =
                dispatches (events st)
                @ (if handlers st MessageCallback
                   then [Invoke MessageCallback (mMessage st4)] else [])
                @ (if HandleNullVelocityNoteOnAsNoteOff cfg \<and> m_data2 (mMessage st2) = 0
                   then (if handlers st NoteOffCallback
                         then [Invoke NoteOffCallback (mMessage st4)] else [])
                   else (if handlers st NoteOnCallback
                         then [Invoke NoteOnCallback (mMessage st4)] else []))"
    using ro s3 lc by (simp add: thruFilter_message thruFilter_dispatches launchCallback_frame)
  from a b show ?thesis by blast
qed

text \<open>The sketch's interface waiting for the velocity of a NoteOn on channel 5.\<close>

definition noteOn5_pending :: midi where
  "noteOn5_pending =
     idle_st\<lparr>mPendingMessage := (0x94, 60, 0), mPendingMessageIndex := 2,
             mPendingMessageExpectedLength := 3\<rparr>"


definition noteOn5_parsed :: midi where
  "noteOn5_parsed =
     noteOn5_pending\<lparr>
       mPendingMessage := (0x94, 60, 100),
       mMessage := (mMessage idle_st)\<lparr>m_type := NoteOn, m_channel := 5,
                     m_data1 := 60, m_data2 := 100, m_valid := True\<rparr>,
       mPendingMessageIndex := 0, mPendingMessageExpectedLength := 0,
       mRunningStatus_RX := 0x94\<rparr>"

theorem channel_filter_NoteOn_witness:
  "parse (example_settings 3 True) (arrive [100] idle_tr)
      (activeSensingBefore (example_settings 3 True) noteOn5_pending)
     = Inr (True, advance idle_tr [], noteOn5_parsed)
   \<and> m_type (mMessage noteOn5_parsed) = NoteOn
   \<and> m_channel (mMessage noteOn5_parsed) = 5
   \<and> (\<exists>st3. read_on (example_settings 3 True) 3 (arrive [100] idle_tr) noteOn5_pending
               = Inr (False, advance idle_tr [], st3)
            \<and> m_valid (mMessage st3) \<and> dispatches (events st3) = [])
   \<and> (\<exists>st4. read_on (example_settings 3 True) MIDI_CHANNEL_OMNI (arrive [100] idle_tr)
                 noteOn5_pending
               = Inr (True, advance idle_tr [], st4)
            \<and> m_valid (mMessage st4)
            \<and> dispatches (events st4) = [Invoke NoteOnCallback (mMessage st4)])"
proof -
  let ?cfg = "example_settings 3 True"
  have p: "parse ?cfg (arrive [100] idle_tr) (activeSensingBefore ?cfg noteOn5_pending)
      = Inr (True, advance idle_tr [], noteOn5_parsed)"
    by (simp add: noteOn5_parsed_def noteOn5_pending_def replicate_3 fixture_defs
          activeSensingBefore_def parse_Cons parse_defs)
  have t: "m_type (mMessage noteOn5_parsed) = NoteOn"
    and c: "m_channel (mMessage noteOn5_parsed) = 5"
    and e: "dispatches (events noteOn5_pending) = []"
      "\<not> handlers noteOn5_pending MessageCallback"
      "handlers noteOn5_pending NoteOnCallback"
      "m_data2 (mMessage noteOn5_parsed) \<noteq> 0"
    by (simp_all add: noteOn5_parsed_def noteOn5_pending_def fixture_defs dispatches_def)
  from channel_filter_NoteOn [OF p t c] e
  have "(\<exists>st3. read_on ?cfg 3 (arrive [100] idle_tr) noteOn5_pending
               = Inr (False, advance idle_tr [], st3)
            \<and> m_valid (mMessage st3) \<and> dispatches (events st3) = [])
   \<and> (\<exists>st4. read_on ?cfg MIDI_CHANNEL_OMNI (arrive [100] idle_tr) noteOn5_pending
               = Inr (True, advance idle_tr [], st4)
            \<and> m_valid (mMessage st4)
            \<and> dispatches (events st4) = [Invoke NoteOnCallback (mMessage st4)])"
    by auto
  with p t c show ?thesis by simp
qed

text \<open>
  The claim fails for a NoteOn with velocity 0 under the settings of the examples
  (null-velocity handling on): \<^verbatim>\<open>parse\<close> completes a NoteOn on channel 5, the NoteOn
  handler is registered and the listening channel is OMNI, and \<^verbatim>\<open>read\<close> calls the
  NoteOff handler and no other.
\<close>

theorem channel_filter_counterexample:
  "handlers noteOn5_pending NoteOnCallback
   \<and> mInputChannel noteOn5_pending = MIDI_CHANNEL_OMNI
   \<and> parse (example_settings 3 True) (arrive [0] idle_tr) noteOn5_pending
       = Inr (True, advance idle_tr [],
              noteOn5_pending\<lparr>
                mMessage := (mMessage idle_st)\<lparr>m_type := NoteOn, m_channel := 5,
                              m_data1 := 60, m_data2 := 0, m_valid := True\<rparr>,
                mPendingMessageIndex := 0, mPendingMessageExpectedLength := 0,
                mRunningStatus_RX := 0x94\<rparr>)
   \<and> read (example_settings 3 True) (arrive [0] idle_tr) noteOn5_pending
       = Inr (True, advance idle_tr [],
              noteOn5_pending\<lparr>
                mMessage := (mMessage idle_st)\<lparr>m_type := NoteOff, m_channel := 5,
                              m_data1 := 60, m_data2 := 0, m_valid := True\<rparr>,
                mPendingMessageIndex := 0, mPendingMessageExpectedLength := 0,
                mRunningStatus_RX := 0x94,
                events := [Invoke NoteOffCallback
                             ((mMessage idle_st)\<lparr>m_type := NoteOff, m_channel := 5,
                                m_data1 := 60, m_data2 := 0, m_valid := True\<rparr>),
                           Send NoteOff 60 0 5]\<rparr>)"
  by (simp add: noteOn5_pending_def replicate_3 fixture_defs parse_Cons parse_defs
        read_def read_on_def activeSensingBefore_def activeSensingAfter_def
        handleNullVelocityNoteOnAsNoteOff_def inputFilter_def thruFilter_def
        sendMessage_def emit_def launchCallback_as_invoke invoke_def)

subsection \<open>C2: a sysex stream longer than the buffer\<close>






end
